theory Spec2Isabelle
  imports Complex_Main "HOL-Library.Word" "HOL-Library.AList"
begin

section \<open>Messages and the flattened prompt\<close>

text \<open>
  A turn of a conversation. The struct is declared elsewhere in the package; the
  fields are the ones the code reads: \<open>message.Text\<close>, \<open>message.IsChatGPT\<close>,
  \<open>message.User\<close> in \<open>buildPrompt\<close> and \<open>msg.Role\<close>, \<open>msg.Text\<close> in \<open>Ask\<close>.
  Go strings are byte sequences and \<open>len\<close> counts bytes, so a string is a
  \<^typ>\<open>char list\<close> and its length is \<^const>\<open>length\<close>.
\<close>

record Message =
  Text :: string
  IsChatGPT :: bool
  User :: string
  Role :: string

text \<open>The three constants of \<open>buildPrompt\<close>; \<open>\n\<close> is the byte \<open>0x0A\<close>.\<close>

definition contextMessage :: "string \<Rightarrow> string \<Rightarrow> string" where
  "contextMessage context date = context @ [CHR 0x0A] @ ''Current date: '' @ date"

definition endMessage :: string where
  "endMessage = ''ChatGPT:''"

definition endOfText :: string where
  "endOfText = ''<|endoftext|>'' @ [CHR 0x0A, CHR 0x0A]"

text \<open>
  The value the callback assigns to \<open>currentMessage\<close>: the three \<open>fmt.Sprintf\<close>
  branches, in the order of the source.
\<close>

definition currentMessage :: "Message \<Rightarrow> string" where
  "currentMessage message =
     (if IsChatGPT message then ''ChatGPT:'' @ [CHR 0x0A, CHR 0x0A] @ Text message
      else if User message \<noteq> [] then User message @ '':'' @ [CHR 0x0A, CHR 0x0A] @ Text message
      else ''User:'' @ [CHR 0x0A, CHR 0x0A] @ Text message)"

text \<open>
  The variables the closure captures and keeps between calls. \<open>charCountRes\<close> is a Go
  \<open>int\<close>; it is modelled as an unbounded integer because it never wraps: it is always
  \<open>len(contextMessage) + len(endMessage) + len(coreMessages)\<close>, the length of strings
  that are in memory. \<open>currentMessage\<close> and \<open>currentTextLength\<close> are overwritten at
  the start of every call before they are read, so they are local here.
\<close>

record walk =
  charCountRes :: int
  coreMessages :: string

text \<open>The callback passed to \<open>ForEach\<close>: the flag \<open>done\<close> and the updated variables.\<close>

definition visit :: "int \<Rightarrow> Message \<Rightarrow> walk \<Rightarrow> bool \<times> walk" where
  "visit maxLength message w =
     (let cur = currentMessage message;
          currentTextLength = int (length cur) + int (length endOfText)
      in if maxLength > 0 \<and> charCountRes w + currentTextLength \<ge> maxLength
         then (True, w)
         else (False, \<lparr>charCountRes = charCountRes w + currentTextLength,
                       coreMessages = cur @ endOfText @ coreMessages w\<rparr>))"

text \<open>
  \<open>safe.List.ForEach\<close> (a library outside the repository): call the function on the
  elements in order and stop after the first call that returns true. The second
  component is the loop's cursor when it ends: the elements from the one that returned
  true onwards, or nothing when the walk reached the end.
\<close>

fun ForEach :: "('a \<Rightarrow> 's \<Rightarrow> bool \<times> 's) \<Rightarrow> 'a list \<Rightarrow> 's \<Rightarrow> 's \<times> 'a list" where
  "ForEach fn [] s = (s, [])"
| "ForEach fn (x # xs) s =
     (case fn x s of (done, s') \<Rightarrow> if done then (s', x # xs) else ForEach fn xs s')"

text \<open>
  The walk of \<open>buildPrompt\<close>: \<open>messages.Reverse().ForEach(...)\<close> on the history in
  chronological order, \<open>Reverse\<close> giving the same elements newest first.
\<close>

definition promptWalk :: "string \<Rightarrow> string \<Rightarrow> Message list \<Rightarrow> int \<Rightarrow> walk \<times> Message list" where
  "promptWalk context date messages maxLength =
     ForEach (visit maxLength) (rev messages)
       \<lparr>charCountRes = int (length (contextMessage context date)) + int (length endMessage),
        coreMessages = []\<rparr>"

text \<open>\<open>buildPrompt\<close>; its error result is always \<open>nil\<close>, so only the bytes are returned.\<close>

definition buildPrompt :: "string \<Rightarrow> string \<Rightarrow> Message list \<Rightarrow> int \<Rightarrow> string" where
  "buildPrompt context date messages maxLength =
     contextMessage context date @ endOfText
       @ coreMessages (fst (promptWalk context date messages maxLength)) @ endMessage"

text \<open>
  Vocabulary for the statements: a message as it stands in the prompt (rendered, then the
  separator), and the length the walk charges for it.
\<close>

definition block :: "Message \<Rightarrow> string" where
  "block m = currentMessage m @ endOfText"

definition blockLength :: "Message \<Rightarrow> int" where
  "blockLength m = int (length (currentMessage m)) + int (length endOfText)"


section \<open>The response budget\<close>

text \<open>
  \<open>calculationPromptMaxTokens\<close> computes on \<open>float64\<close>: its three \<open>int\<close> arguments
  are converted, \<open>math.Min\<close> and \<open>math.Max\<close> are applied, and the result is converted
  back. Go's \<open>int\<close> is taken to be 64 bits wide (as on amd64 and arm64), so it is a
  \<^typ>\<open>64 word\<close> read by \<^const>\<open>sint\<close>, and \<open>-\<close> wraps.

  A \<open>float64\<close> that comes from an \<open>int\<close> is an integer, so it is modelled by its value,
  an \<^typ>\<open>int\<close>: the conversion rounds to a 53-bit significand, to nearest, ties to
  even. No NaN, infinity or negative zero arises, so \<open>math.Min\<close> and \<open>math.Max\<close> are
  \<^const>\<open>min\<close> and \<^const>\<open>max\<close> on the values.
\<close>

text \<open>The number of binary digits of a positive integer.\<close>

function bitlen :: "int \<Rightarrow> nat" where
  "bitlen n = (if n \<le> 0 then 0 else Suc (bitlen (n div 2)))"
  by pat_completeness auto
termination
  by (relation "measure nat") auto

declare bitlen.simps [simp del]

definition roundToFloat64 :: "int \<Rightarrow> int" where
  "roundToFloat64 x =
     (let m = \<bar>x\<bar>;
          s = bitlen m - 53;
          q = m div 2 ^ s;
          r = m mod 2 ^ s
      in if 2 * r < 2 ^ s \<or> (2 * r = 2 ^ s \<and> even q)
         then sgn x * (q * 2 ^ s)
         else sgn x * ((q + 1) * 2 ^ s))"

definition float64 :: "64 word \<Rightarrow> int" where
  "float64 x = roundToFloat64 (sint x)"

text \<open>
  \<open>int(f)\<close> for a \<open>float64\<close> with an integer value. Go leaves the result
  implementation-dependent when the value is out of the range of \<open>int\<close> (here only
  \<open>2^63\<close> can be); \<open>outOfRange\<close> is what the platform gives then.
\<close>

definition int_of_float64 :: "64 word \<Rightarrow> int \<Rightarrow> 64 word" where
  "int_of_float64 outOfRange f =
     (if - (2 ^ 63) \<le> f \<and> f < 2 ^ 63 then word_of_int f else outOfRange)"

definition calculationPromptMaxTokens :: "64 word \<Rightarrow> 64 word \<Rightarrow> 64 word \<Rightarrow> 64 word \<Rightarrow> 64 word" where
  "calculationPromptMaxTokens outOfRange questLength MaxRequestResponseTokens MaxResponseTokens =
     (let numTokens = questLength;
          maxTokens = max (float64 MaxResponseTokens)
                        (min (float64 (MaxRequestResponseTokens - numTokens))
                             (float64 MaxResponseTokens))
      in int_of_float64 outOfRange maxTokens)"


section \<open>The client and its conversation store\<close>

text \<open>A Go \<open>error\<close> is identified with its message.\<close>

type_synonym error = string

text \<open>
  \<open>Config\<close>, with the fields of the source. \<open>New\<close> replaces a zero
  \<open>MaxResponseTokens\<close> or \<open>MaxConversations\<close> by a default and an empty
  \<open>ChatGPTName\<close> by \<open>"ChatGPT"\<close>.
\<close>

record Config =
  APIKey :: string
  APIServer :: string
  MaxResponseTokens :: "64 word"
  MaxConversations :: "64 word"
  ConversationMaxAge :: "64 word"
  ConversationContext :: string
  ConversationLanguage :: string
  ChatGPTName :: string
  Proxy :: string

text \<open>
  \<open>ConversationConfig\<close> is declared elsewhere in the package; these are the
  fields \<open>GetOrCreateConversation\<close> reads and writes. \<open>MaxAge\<close> is a duration, kept
  as a number of time units.
\<close>

record ConversationConfig =
  ID :: string
  MaxAge :: int
  Context :: string
  Language :: string
  ChatGPTName :: string

text \<open>
  Modelled from the spec: the struct behind the \<open>Conversation\<close> interface is declared
  elsewhere in the package. The spec's data model gives a conversation an
  identifier (\<open>convID\<close>), its history in chronological order, a mutable model, and
  its context (\<open>convContext\<close>), language, assistant name and maximum age.
\<close>

record Conversation =
  convID :: string
  history :: "Message list"
  model :: string
  convContext :: string
  language :: string
  assistantName :: string
  maxAgeSeconds :: int

text \<open>
  A \<open>Conversation\<close> value in Go is a reference to an object on the heap: the cache and
  the callers hold the same object, and \<open>SetModel\<close> changes it for all of them. So the
  cache stores addresses, and the objects are in a store of their own.
\<close>

type_synonym addr = nat

text \<open>
  Modelled from the spec: the cache is \<open>lru.LRU\<close>, a library outside the repository.
  The spec describes it as a bounded cache with least-recently-used eviction and a
  time-to-live per entry, an entry touched after its time-to-live has elapsed being
  treated as absent and dropped then. The entries are kept most recently used first; the
  clock is the argument \<open>now\<close> of each operation.
\<close>

record entry =
  conv :: addr
  expiresAt :: int

record LRU =
  capacity :: nat
  items :: "(string \<times> entry) list"

text \<open>What a lookup of the key \<open>k\<close> at time \<open>now\<close> answers: the live entry, if there is one.\<close>

definition lru_live :: "int \<Rightarrow> string \<Rightarrow> LRU \<Rightarrow> addr option" where
  "lru_live now k l =
     (case map_of (items l) k of
        None \<Rightarrow> None
      | Some e \<Rightarrow> if expiresAt e < now then None else Some (conv e))"

definition lru_Get :: "int \<Rightarrow> string \<Rightarrow> LRU \<Rightarrow> addr option \<times> LRU" where
  "lru_Get now k l =
     (case map_of (items l) k of
        None \<Rightarrow> (None, l)
      | Some e \<Rightarrow>
          if expiresAt e < now then (None, l\<lparr>items := AList.delete k (items l)\<rparr>)
          else (Some (conv e), l\<lparr>items := (k, e) # AList.delete k (items l)\<rparr>))"

definition lru_Set :: "string \<Rightarrow> addr \<Rightarrow> int \<Rightarrow> int \<Rightarrow> LRU \<Rightarrow> LRU" where
  "lru_Set k v maxAge now l =
     l\<lparr>items := take (capacity l)
                   ((k, \<lparr>conv = v, expiresAt = now + maxAge\<rparr>) # AList.delete k (items l))\<rparr>"

text \<open>
  The remote completion API, \<open>openai.Client\<close>, a library outside the repository. A
  chat message is its role and content; a response is the list of the texts of its
  choices; a call fails with an error or succeeds with a response.
\<close>

record CreateChatCompletionRequest =
  chat_Model :: string
  chat_Messages :: "(string \<times> string) list"
  chat_MaxTokens :: "64 word"
  chat_Temperature :: rat

record CreateCompletionRequest =
  completion_Model :: string
  completion_Prompt :: string
  completion_MaxTokens :: "64 word"

record openai_Client =
  CreateChatCompletion :: "CreateChatCompletionRequest \<Rightarrow> error + string list"
  CreateCompletion :: "CreateCompletionRequest \<Rightarrow> error + string list"

definition ModelGPT3_5Turbo :: string where
  "ModelGPT3_5Turbo = ''gpt-3.5-turbo''"

definition ModelGPT3_5Turbo0301 :: string where
  "ModelGPT3_5Turbo0301 = ''gpt-3.5-turbo-0301''"

text \<open>
  The \<open>client\<close> struct: \<open>core\<close>, \<open>cfg\<close> and \<open>conversationsCache\<close>. The last two
  fields are not fields of the struct: they are the part of the Go heap that holds the
  conversations, \<open>heap\<close> giving the object at an address and \<open>nextAddr\<close> the first
  address not yet allocated.
\<close>

record client =
  core :: openai_Client
  cfg :: Config
  conversationsCache :: LRU
  heap :: "addr \<Rightarrow> Conversation"
  nextAddr :: addr

text \<open>
  The first part of \<open>GetOrCreateConversation\<close>: the five assignments to the fields of
  \<open>*cfg\<close>, which the caller sees as well. \<open>DefaultConversationMaxAge\<close> is a constant
  declared elsewhere in the package, so it is an argument.
\<close>

definition fillConversationConfig ::
    "int \<Rightarrow> Config \<Rightarrow> string \<Rightarrow> ConversationConfig \<Rightarrow> ConversationConfig" where
  "fillConversationConfig DefaultConversationMaxAge ccfg id0 conf =
     (let conf = (if ID conf = [] then conf\<lparr>ID := id0\<rparr> else conf);
          conf = (if MaxAge conf = 0 then conf\<lparr>MaxAge := DefaultConversationMaxAge\<rparr> else conf);
          conf = (if Context conf = [] \<and> ConversationContext ccfg \<noteq> []
                  then conf\<lparr>Context := ConversationContext ccfg\<rparr> else conf);
          conf = (if Language conf = [] \<and> ConversationLanguage ccfg \<noteq> []
                  then conf\<lparr>Language := ConversationLanguage ccfg\<rparr> else conf);
          conf = (if ConversationConfig.ChatGPTName conf = []
                  then conf\<lparr>ConversationConfig.ChatGPTName := Config.ChatGPTName ccfg\<rparr> else conf)
      in conf)"

text \<open>
  \<open>GetOrCreateConversation\<close>. \<open>NewConversation\<close> is defined elsewhere in the
  package, so it is an argument: from the client's configuration and the filled
  \<open>*cfg\<close> it gives an error or the new object, which is put at a fresh address.
\<close>

definition GetOrCreateConversation ::
    "int \<Rightarrow> (Config \<Rightarrow> ConversationConfig \<Rightarrow> error + Conversation) \<Rightarrow> int
      \<Rightarrow> string \<Rightarrow> ConversationConfig \<Rightarrow> client \<Rightarrow> (error + addr) \<times> client" where
  "GetOrCreateConversation DefaultConversationMaxAge NewConversation now id0 conf c =
     (let conf = fillConversationConfig DefaultConversationMaxAge (cfg c) id0 conf
      in case lru_Get now (ID conf) (conversationsCache c) of
           (Some a, cache) \<Rightarrow> (Inr a, c\<lparr>conversationsCache := cache\<rparr>)
         | (None, cache) \<Rightarrow>
             (case NewConversation (cfg c) conf of
                Inl err \<Rightarrow> (Inl err, c\<lparr>conversationsCache := cache\<rparr>)
              | Inr conversation \<Rightarrow>
                  (Inr (nextAddr c),
                   c\<lparr>conversationsCache := lru_Set id0 (nextAddr c) (MaxAge conf) now cache,
                     heap := (heap c)(nextAddr c := conversation),
                     nextAddr := Suc (nextAddr c)\<rparr>)))"

text \<open>
  Modelled from the spec: \<open>NewConversation\<close> as the spec describes it, a new
  conversation seeded with the merged settings and an empty history. It stands for the
  argument wherever a statement needs a concrete constructor.
\<close>

definition NewConversation_spec :: "Config \<Rightarrow> ConversationConfig \<Rightarrow> error + Conversation" where
  "NewConversation_spec ccfg conf =
     Inr \<lparr>convID = ID conf, history = [], model = [], convContext = Context conf,
          language = Language conf, assistantName = ConversationConfig.ChatGPTName conf,
          maxAgeSeconds = MaxAge conf\<rparr>"

definition GetConversation :: "int \<Rightarrow> string \<Rightarrow> client \<Rightarrow> (error + addr) \<times> client" where
  "GetConversation now id0 c =
     (case lru_Get now id0 (conversationsCache c) of
        (Some a, cache) \<Rightarrow> (Inr a, c\<lparr>conversationsCache := cache\<rparr>)
      | (None, cache) \<Rightarrow>
          (Inl (''conversation(id: '' @ id0 @ '') not found''), c\<lparr>conversationsCache := cache\<rparr>))"

text \<open>
  Modelled from the spec: \<open>SetModel\<close>, a method of the struct behind \<open>Conversation\<close>,
  is defined elsewhere in the package. The spec says that the model field of the
  conversation is changed in place; no failure is described, so it returns no error.
\<close>

definition SetModel :: "addr \<Rightarrow> string \<Rightarrow> client \<Rightarrow> error option \<times> client" where
  "SetModel a m c = (None, c\<lparr>heap := (heap c)(a := (heap c a)\<lparr>model := m\<rparr>)\<rparr>)"

definition ChangeConversationModel :: "int \<Rightarrow> string \<Rightarrow> string \<Rightarrow> client \<Rightarrow> error option \<times> client" where
  "ChangeConversationModel now conversationID m c =
     (case GetConversation now conversationID c of
        (Inl err, c') \<Rightarrow> (Some err, c')
      | (Inr conversation, c') \<Rightarrow> SetModel conversation m c')"

section \<open>Ask\<close>

text \<open>
  \<open>AskConfig\<close>. \<open>Messages\<close> is a slice of pointers, so an element can be \<open>nil\<close>
  (\<open>None\<close>).
\<close>

record AskConfig =
  Model :: string
  Prompt :: string
  Messages :: "Message option list"
  MaxRequestResponseTokens :: "64 word"

text \<open>What a call of \<open>Ask\<close> can end in besides returning: a run-time panic.\<close>

datatype panic = IndexOutOfRange | NilPointerDereference

text \<open>
  The loop of the chat branch, with its two variables; reading \<open>msg.Text\<close> through a
  \<open>nil\<close> pointer panics.
\<close>

fun chatMessages ::
    "Message option list \<Rightarrow> 64 word \<Rightarrow> (string \<times> string) list
      \<Rightarrow> panic + (64 word \<times> (string \<times> string) list)" where
  "chatMessages [] currentMessageLength messages = Inr (currentMessageLength, messages)"
| "chatMessages (None # rest) currentMessageLength messages = Inl NilPointerDereference"
| "chatMessages (Some msg # rest) currentMessageLength messages =
     chatMessages rest (currentMessageLength + of_nat (length (Text msg)))
       (messages @ [(Role msg, Text msg)])"

text \<open>\<open>completion.Choices[0]\<close>: indexing an empty slice panics.\<close>

definition firstChoice :: "string list \<Rightarrow> panic + string" where
  "firstChoice choices = (case choices of [] \<Rightarrow> Inl IndexOutOfRange | first # _ \<Rightarrow> Inr first)"

text \<open>
  \<open>Ask\<close>. It returns \<open>(nil, err)\<close>, here \<open>Inr (Inl err)\<close>, or \<open>(answer, nil)\<close>, here
  \<open>Inr (Inr answer)\<close>, or it panics. \<open>strings.TrimSpace\<close> is a function of a library
  outside the repository, so it is an argument, as is \<open>outOfRange\<close>.
\<close>

definition Ask ::
    "(string \<Rightarrow> string) \<Rightarrow> 64 word \<Rightarrow> client \<Rightarrow> AskConfig \<Rightarrow> panic + (error + string)" where
  "Ask TrimSpace outOfRange c acfg =
     (if Model acfg = ModelGPT3_5Turbo \<or> Model acfg = ModelGPT3_5Turbo0301 then
        (case chatMessages (Messages acfg) 0 [] of
           Inl p \<Rightarrow> Inl p
         | Inr (currentMessageLength, messages) \<Rightarrow>
             (let maxTokens = calculationPromptMaxTokens outOfRange currentMessageLength
                                (MaxRequestResponseTokens acfg) (MaxResponseTokens (cfg c))
              in case CreateChatCompletion (core c)
                        \<lparr>chat_Model = Model acfg, chat_Messages = messages,
                         chat_MaxTokens = maxTokens, chat_Temperature = 1 / 10\<rparr> of
                   Inl err \<Rightarrow> Inr (Inl err)
                 | Inr choices \<Rightarrow>
                     (case firstChoice choices of
                        Inl p \<Rightarrow> Inl p
                      | Inr content \<Rightarrow> Inr (Inr (TrimSpace content)))))
      else
        (let questionX = Prompt acfg;
             maxTokens = calculationPromptMaxTokens outOfRange (of_nat (length questionX))
                           (MaxRequestResponseTokens acfg) (MaxResponseTokens (cfg c))
         in case CreateCompletion (core c)
                   \<lparr>completion_Model = Model acfg, completion_Prompt = questionX,
                    completion_MaxTokens = maxTokens\<rparr> of
              Inl err \<Rightarrow> Inr (Inl err)
            | Inr choices \<Rightarrow>
                (case firstChoice choices of
                   Inl p \<Rightarrow> Inl p
                 | Inr text \<Rightarrow> Inr (Inr (TrimSpace text)))))"

section \<open>A client to run the operations on\<close>

text \<open>
  A client whose store is empty and holds at most two conversations, and whose remote
  API answers every request with the given result.
\<close>

definition blankConversation :: Conversation where
  "blankConversation =
     \<lparr>convID = [], history = [], model = [], convContext = [], language = [],
      assistantName = [], maxAgeSeconds = 0\<rparr>"

definition emptyClient :: "(error + string list) \<Rightarrow> client" where
  "emptyClient answer =
     \<lparr>core = \<lparr>CreateChatCompletion = (\<lambda>request. answer),
               CreateCompletion = (\<lambda>request. answer)\<rparr>,
      cfg = \<lparr>APIKey = ''key'', APIServer = [], MaxResponseTokens = 1000,
              MaxConversations = 2, ConversationMaxAge = 0, ConversationContext = [],
              ConversationLanguage = [], ChatGPTName = ''ChatGPT'', Proxy = []\<rparr>,
      conversationsCache = \<lparr>capacity = 2, items = []\<rparr>,
      heap = (\<lambda>a. blankConversation),
      nextAddr = 0\<rparr>"

text \<open>
  The same client after one conversation was created under the key \<open>k\<close> at time 0 with
  a maximum age of 3600: the conversation is at address 0.
\<close>

definition clientHolding :: "string \<Rightarrow> client" where
  "clientHolding k =
     (emptyClient (Inl []))
       \<lparr>conversationsCache := \<lparr>capacity = 2, items = [(k, \<lparr>conv = 0, expiresAt = 3600\<rparr>)]\<rparr>,
        heap := (\<lambda>a. blankConversation)
                  (0 := blankConversation\<lparr>convID := k, assistantName := ''ChatGPT'',
                                           maxAgeSeconds := 3600\<rparr>),
        nextAddr := 1\<rparr>"


section \<open>Properties of the flattened prompt\<close>

subsection \<open>The walk\<close>

lemma length_endOfText: "length endOfText = 15"
  by (simp add: endOfText_def)

lemma blockLength_block: "blockLength m = int (length (block m))"
  by (simp add: blockLength_def block_def)

lemma blockLength_lower: "19 \<le> blockLength m"
  by (cases "User m") (simp_all add: blockLength_def currentMessage_def endOfText_def)

lemma visit_stop:
  "0 < L \<and> L \<le> charCountRes w + blockLength m \<Longrightarrow> visit L m w = (True, w)"
  by (simp add: visit_def blockLength_def Let_def)

lemma visit_accept:
  "\<not> (0 < L \<and> L \<le> charCountRes w + blockLength m) \<Longrightarrow>
     visit L m w = (False, \<lparr>charCountRes = charCountRes w + blockLength m,
                             coreMessages = block m @ coreMessages w\<rparr>)"
  by (simp add: visit_def blockLength_def block_def Let_def)

lemma ForEach_visit_split:
  "ForEach (visit L) xs w = (w', rest) \<Longrightarrow>
     \<exists>taken. xs = taken @ rest
       \<and> coreMessages w' = concat (map block (rev taken)) @ coreMessages w
       \<and> charCountRes w' = charCountRes w + sum_list (map blockLength taken)
       \<and> (rest \<noteq> [] \<longrightarrow> 0 < L \<and> L \<le> charCountRes w' + blockLength (hd rest))
       \<and> (taken \<noteq> [] \<and> 0 < L \<longrightarrow> charCountRes w' < L)"
proof (induction xs arbitrary: w)
  case Nil
  then show ?case by simp
next
  case (Cons x xs)
  show ?case
  proof (cases "L > 0 \<and> charCountRes w + blockLength x \<ge> L")
    case True
    with Cons.prems have "w' = w" "rest = x # xs"
      by (simp_all add: visit_stop)
    then show ?thesis using True by simp
  next
    case False
    let ?w1 = "\<lparr>charCountRes = charCountRes w + blockLength x,
                 coreMessages = block x @ coreMessages w\<rparr>"
    from False Cons.prems have "ForEach (visit L) xs ?w1 = (w', rest)"
      by (simp add: visit_accept)
    from Cons.IH [OF this] obtain taken where t:
      "xs = taken @ rest"
      "coreMessages w' = concat (map block (rev taken)) @ coreMessages ?w1"
      "charCountRes w' = charCountRes ?w1 + sum_list (map blockLength taken)"
      "rest \<noteq> [] \<longrightarrow> 0 < L \<and> L \<le> charCountRes w' + blockLength (hd rest)"
      "taken \<noteq> [] \<and> 0 < L \<longrightarrow> charCountRes w' < L"
      by blast
    have "charCountRes w' < L" if "0 < L"
    proof (cases "taken = []")
      case True
      with t(3) False that show ?thesis by simp
    next
      case False
      with t(5) that show ?thesis by simp
    qed
    with t show ?thesis
      by (intro exI [of _ "x # taken"]) simp
  qed
qed


subsection \<open>Truncation\<close>

text \<open>
  With the context \<open>"You are helpful"\<close> and the date \<open>"2024-01-01"\<close> the header and
  the trailer alone are 48 bytes. With \<open>maxLength = 30\<close> the walk stops at the only
  message, whose block is 24 bytes, and the prompt is the 63 bytes of header, separator
  and trailer: not less than \<open>30 + 24\<close>.
\<close>

theorem buildPrompt_truncation_counterexample:
  "snd (promptWalk ''You are helpful'' ''2024-01-01''
          [\<lparr>Text = ''hi'', IsChatGPT = False, User = [], Role = []\<rparr>] 30)
     = [\<lparr>Text = ''hi'', IsChatGPT = False, User = [], Role = []\<rparr>]
   \<and> length (buildPrompt ''You are helpful'' ''2024-01-01''
          [\<lparr>Text = ''hi'', IsChatGPT = False, User = [], Role = []\<rparr>] 30) = 63
   \<and> blockLength \<lparr>Text = ''hi'', IsChatGPT = False, User = [], Role = []\<rparr> = 24
   \<and> \<not> int (length (buildPrompt ''You are helpful'' ''2024-01-01''
          [\<lparr>Text = ''hi'', IsChatGPT = False, User = [], Role = []\<rparr>] 30))
        < 30 + blockLength \<lparr>Text = ''hi'', IsChatGPT = False, User = [], Role = []\<rparr>"
  by (simp add: buildPrompt_def promptWalk_def visit_def currentMessage_def contextMessage_def
      endOfText_def endMessage_def blockLength_def Let_def)

text \<open>
  C1, as the code has it. When the walk stops at a message \<open>trig\<close>, the history is
  \<open>rev older @ trig # newer\<close>, and the prompt is the header, the separator, the whole
  blocks of exactly the messages \<open>newer\<close> (those after \<open>trig\<close>, in chronological
  order) and the trailer: no message is cut, and \<open>trig\<close> and everything older are left
  out. \<open>maxLength\<close> is positive, and the budget with \<open>trig\<close> would have reached it.
  The length of the prompt is below \<open>maxLength\<close> plus the length of the block of
  \<open>trig\<close> exactly when a message was retained or header, separator and trailer alone
  are below that bound; it is so in particular when header and trailer together do not
  exceed \<open>maxLength\<close>.
\<close>

theorem buildPrompt_truncation_boundary:
  assumes "snd (promptWalk context date messages maxLength) = trig # older"
  shows "\<exists>newer. messages = rev older @ trig # newer
      \<and> buildPrompt context date messages maxLength =
          contextMessage context date @ endOfText @ concat (map block newer) @ endMessage
      \<and> 0 < maxLength
      \<and> maxLength \<le> int (length (contextMessage context date)) + int (length endMessage)
            + sum_list (map blockLength newer) + blockLength trig
      \<and> ((int (length (buildPrompt context date messages maxLength)) < maxLength + blockLength trig)
           = (newer \<noteq> [] \<or>
              int (length (contextMessage context date @ endOfText @ endMessage))
                < maxLength + blockLength trig))
      \<and> (int (length (contextMessage context date)) + int (length endMessage) \<le> maxLength \<longrightarrow>
           int (length (buildPrompt context date messages maxLength)) < maxLength + blockLength trig)"
proof -
  let ?w0 = "\<lparr>charCountRes = int (length (contextMessage context date)) + int (length endMessage),
               coreMessages = []\<rparr>"
  obtain w' where run: "ForEach (visit maxLength) (rev messages) ?w0 = (w', trig # older)"
    using assms by (cases "promptWalk context date messages maxLength") (simp add: promptWalk_def)
  from ForEach_visit_split [OF run] obtain taken where t:
    "rev messages = taken @ trig # older"
    "coreMessages w' = concat (map block (rev taken))"
    "charCountRes w' = int (length (contextMessage context date)) + int (length endMessage)
        + sum_list (map blockLength taken)"
    "0 < maxLength" "maxLength \<le> charCountRes w' + blockLength trig"
    "taken \<noteq> [] \<longrightarrow> charCountRes w' < maxLength"
    by auto
  let ?newer = "rev taken"
  have split: "messages = rev older @ trig # ?newer"
    using arg_cong [OF t(1), of rev] by simp
  have prompt: "buildPrompt context date messages maxLength =
      contextMessage context date @ endOfText @ concat (map block ?newer) @ endMessage"
    using run t(2) by (simp add: buildPrompt_def promptWalk_def)
  have sum: "sum_list (map blockLength ?newer) = sum_list (map blockLength taken)"
    by (simp add: rev_map [symmetric])
  have len_core: "int (length (concat (map block xs))) = sum_list (map blockLength xs)" for xs
    by (induction xs) (simp_all add: blockLength_block)
  have len: "int (length (buildPrompt context date messages maxLength)) = charCountRes w' + 15"
    using t(3) by (simp add: prompt len_core sum length_endOfText)
  have frame: "int (length (contextMessage context date @ endOfText @ endMessage))
      = int (length (contextMessage context date)) + int (length endMessage) + 15"
    by (simp add: length_endOfText)
  have lower: "19 \<le> blockLength trig"
    by (rule blockLength_lower)
  have iff: "(int (length (buildPrompt context date messages maxLength)) < maxLength + blockLength trig)
       = (?newer \<noteq> [] \<or>
          int (length (contextMessage context date @ endOfText @ endMessage))
            < maxLength + blockLength trig)"
  proof (cases "taken = []")
    case True
    then show ?thesis using t(3) by (simp add: len length_endOfText add.commute add.left_commute)
  next
    case False
    with t(6) have "charCountRes w' < maxLength" by simp
    with lower False show ?thesis by (simp add: len)
  qed
  have fits: "int (length (buildPrompt context date messages maxLength)) < maxLength + blockLength trig"
    if "int (length (contextMessage context date)) + int (length endMessage) \<le> maxLength"
  proof (cases "taken = []")
    case True
    with that t(3) lower show ?thesis by (simp add: len)
  next
    case False
    with t(6) lower show ?thesis by (simp add: len)
  qed
  from split prompt t(4) t(5) t(3) iff fits show ?thesis
    by (intro exI [of _ ?newer]) (simp add: sum)
qed

theorem buildPrompt_truncation_boundary_witness:
  "snd (promptWalk ''You are helpful'' ''2024-01-01''
          [\<lparr>Text = ''hi'', IsChatGPT = False, User = [], Role = []\<rparr>,
           \<lparr>Text = ''hello'', IsChatGPT = True, User = [], Role = []\<rparr>] 100)
     = [\<lparr>Text = ''hi'', IsChatGPT = False, User = [], Role = []\<rparr>]
   \<and> buildPrompt ''You are helpful'' ''2024-01-01''
          [\<lparr>Text = ''hi'', IsChatGPT = False, User = [], Role = []\<rparr>,
           \<lparr>Text = ''hello'', IsChatGPT = True, User = [], Role = []\<rparr>] 100
     = contextMessage ''You are helpful'' ''2024-01-01'' @ endOfText
         @ block \<lparr>Text = ''hello'', IsChatGPT = True, User = [], Role = []\<rparr> @ endMessage
   \<and> int (length (buildPrompt ''You are helpful'' ''2024-01-01''
          [\<lparr>Text = ''hi'', IsChatGPT = False, User = [], Role = []\<rparr>,
           \<lparr>Text = ''hello'', IsChatGPT = True, User = [], Role = []\<rparr>] 100))
       < 100 + blockLength \<lparr>Text = ''hi'', IsChatGPT = False, User = [], Role = []\<rparr>"
proof -
  let ?hi = "\<lparr>Text = ''hi'', IsChatGPT = False, User = [], Role = []\<rparr>"
  let ?hello = "\<lparr>Text = ''hello'', IsChatGPT = True, User = [], Role = []\<rparr>"
  have stop: "snd (promptWalk ''You are helpful'' ''2024-01-01'' [?hi, ?hello] 100) = ?hi # []"
    by (simp add: promptWalk_def visit_def currentMessage_def contextMessage_def
        endOfText_def endMessage_def Let_def)
  have fits: "int (length (contextMessage ''You are helpful'' ''2024-01-01''))
      + int (length endMessage) \<le> 100"
    by (simp add: contextMessage_def endMessage_def)
  from buildPrompt_truncation_boundary [OF stop] obtain newer where n:
    "[?hi, ?hello] = rev [] @ ?hi # newer"
    "buildPrompt ''You are helpful'' ''2024-01-01'' [?hi, ?hello] 100 =
       contextMessage ''You are helpful'' ''2024-01-01'' @ endOfText
         @ concat (map block newer) @ endMessage"
    "int (length (contextMessage ''You are helpful'' ''2024-01-01''))
       + int (length endMessage) \<le> 100 \<longrightarrow>
     int (length (buildPrompt ''You are helpful'' ''2024-01-01'' [?hi, ?hello] 100))
       < 100 + blockLength ?hi"
    by blast
  from n(1) have "newer = [?hello]" by simp
  with n(2) n(3) fits stop show ?thesis by simp
qed

subsection \<open>No bound\<close>



subsection \<open>The example of the specification\<close>

text \<open>
  C3. For the context \<open>"You are helpful"\<close>, the date \<open>"2024-01-01"\<close>, the history
  of a user turn \<open>"hi"\<close> followed by an assistant turn \<open>"hello"\<close>, and
  \<open>maxLength = 0\<close>, the prompt is the byte string of the specification.
\<close>

theorem buildPrompt_example:
  "buildPrompt ''You are helpful'' ''2024-01-01''
     [\<lparr>Text = ''hi'', IsChatGPT = False, User = [], Role = userRole\<rparr>,
      \<lparr>Text = ''hello'', IsChatGPT = True, User = [], Role = assistantRole\<rparr>] 0
   = ''You are helpful\<newline>Current date: 2024-01-01<|endoftext|>\<newline>\<newline>User:\<newline>\<newline>hi<|endoftext|>\<newline>\<newline>ChatGPT:\<newline>\<newline>hello<|endoftext|>\<newline>\<newline>ChatGPT:''"
  by (simp add: buildPrompt_def promptWalk_def visit_def currentMessage_def contextMessage_def
      endOfText_def endMessage_def Let_def)

subsection \<open>The label of the assistant\<close>




section \<open>Properties of the response budget\<close>

lemma bitlen_le: "n < 2 ^ k \<Longrightarrow> bitlen n \<le> k"
proof (induction k arbitrary: n)
  case 0
  then show ?case by (simp add: bitlen.simps)
next
  case (Suc k)
  show ?case
  proof (cases "n \<le> 0")
    case True
    then show ?thesis by (simp add: bitlen.simps)
  next
    case False
    from Suc.prems have "n div 2 < 2 ^ k" by simp
    from Suc.IH [OF this] False show ?thesis
      by (subst bitlen.simps) simp
  qed
qed

lemma roundToFloat64_pow53:
  "roundToFloat64 9007199254740992 = 9007199254740992"
  "roundToFloat64 (- 9007199254740992) = - 9007199254740992"
  by code_simp+

lemma roundToFloat64_exact:
  assumes "\<bar>x\<bar> \<le> 2 ^ 53"
  shows "roundToFloat64 x = x"
proof (cases "\<bar>x\<bar> = 2 ^ 53")
  case True
  then have "x = 9007199254740992 \<or> x = - 9007199254740992" by auto
  then show ?thesis using roundToFloat64_pow53 by auto
next
  case False
  with assms have "\<bar>x\<bar> < 2 ^ 53" by simp
  then have "bitlen \<bar>x\<bar> - 53 = 0"
    using bitlen_le by simp
  moreover have "sgn x * \<bar>x\<bar> = x"
    by (simp add: mult_sgn_abs)
  ultimately show ?thesis
    by (simp add: roundToFloat64_def Let_def)
qed

lemma calculationPromptMaxTokens_float64:
  "calculationPromptMaxTokens outOfRange n b a = int_of_float64 outOfRange (float64 a)"
  by (simp add: calculationPromptMaxTokens_def Let_def)

lemma calculationPromptMaxTokens_exact:
  assumes "\<bar>sint a\<bar> \<le> 2 ^ 53"
  shows "calculationPromptMaxTokens outOfRange n b a = a"
proof -
  have "float64 a = sint a"
    using assms by (simp add: float64_def roundToFloat64_exact)
  moreover have "- (2 ^ 63) \<le> sint a" "sint a < 2 ^ 63"
    using assms by simp_all
  ultimately show ?thesis
    by (simp add: calculationPromptMaxTokens_float64 int_of_float64_def)
qed

lemma roundToFloat64_above_pow53:
  "roundToFloat64 9007199254740993 = 9007199254740992"
  "roundToFloat64 9007199254740995 = 9007199254740996"
  by code_simp+

text \<open>
  With \<open>minResponseBudget = 2^53 + 1\<close>, which no \<open>float64\<close> represents, the result is
  \<open>2^53\<close>, while the formula on the integers gives \<open>2^53 + 1\<close>.
\<close>

theorem calculationPromptMaxTokens_formula_counterexample:
  "sint (calculationPromptMaxTokens 9223372036854775808 0 0 9007199254740993)
     = 9007199254740992
   \<and> sint (calculationPromptMaxTokens 9223372036854775808 0 0 9007199254740993)
     \<noteq> max (sint (9007199254740993 :: 64 word))
         (min (sint (0 :: 64 word) - sint (0 :: 64 word)) (sint (9007199254740993 :: 64 word)))"
  by (simp add: calculationPromptMaxTokens_float64 float64_def roundToFloat64_above_pow53
      int_of_float64_def)

text \<open>
  C5, as the code has it. For all 64-bit integers \<open>promptLength\<close>,
  \<open>maxRequestResponseBudget\<close> and \<open>minResponseBudget\<close> with
  \<open>\<bar>minResponseBudget\<bar> \<le> 2^53\<close>, the range in which the conversion to \<open>float64\<close>
  is exact, the result equals
  \<open>max(minResponseBudget, min(maxRequestResponseBudget - promptLength, minResponseBudget))\<close>
  computed on the integers; and the result is 50 for the arguments \<open>(100, 1000, 50)\<close>,
  \<open>(100, 120, 50)\<close> and \<open>(10, 1000, 50)\<close>.
\<close>

theorem calculationPromptMaxTokens_formula:
  "(\<bar>sint minResponseBudget\<bar> \<le> 2 ^ 53 \<longrightarrow>
      sint (calculationPromptMaxTokens outOfRange promptLength maxRequestResponseBudget
              minResponseBudget)
        = max (sint minResponseBudget)
            (min (sint maxRequestResponseBudget - sint promptLength) (sint minResponseBudget)))
   \<and> calculationPromptMaxTokens outOfRange 100 1000 50 = 50
   \<and> calculationPromptMaxTokens outOfRange 100 120 50 = 50
   \<and> calculationPromptMaxTokens outOfRange 10 1000 50 = 50"
proof -
  have examples: "calculationPromptMaxTokens outOfRange n b 50 = 50" for n b
    by (rule calculationPromptMaxTokens_exact) simp
  have "sint (calculationPromptMaxTokens outOfRange promptLength maxRequestResponseBudget
            minResponseBudget)
      = max (sint minResponseBudget)
          (min (sint maxRequestResponseBudget - sint promptLength) (sint minResponseBudget))"
    if "\<bar>sint minResponseBudget\<bar> \<le> 2 ^ 53"
    using that by (simp add: calculationPromptMaxTokens_exact)
  with examples show ?thesis
    by blast
qed

theorem calculationPromptMaxTokens_formula_witness:
  "\<bar>sint (4096 :: 64 word)\<bar> \<le> 2 ^ 53
   \<and> sint (calculationPromptMaxTokens 9223372036854775808 3000 4097 4096) = 4096
   \<and> max (sint (4096 :: 64 word))
        (min (sint (4097 :: 64 word) - sint (3000 :: 64 word)) (sint (4096 :: 64 word))) = 4096"
proof -
  have h: "\<bar>sint (4096 :: 64 word)\<bar> \<le> 2 ^ 53" by simp
  from calculationPromptMaxTokens_formula [of 4096 9223372036854775808 3000 4097] h
  have "sint (calculationPromptMaxTokens 9223372036854775808 3000 4097 4096)
      = max (sint (4096 :: 64 word))
          (min (sint (4097 :: 64 word) - sint (3000 :: 64 word)) (sint (4096 :: 64 word)))"
    by blast
  then show ?thesis
    using h by simp
qed

text \<open>
  With \<open>MaxResponseTokens = 2^53 + 3\<close>, which lies halfway between two neighbouring
  \<open>float64\<close> values and is rounded to \<open>2^53 + 4\<close>, the result is not the argument.
\<close>

theorem calculationPromptMaxTokens_constant_counterexample:
  "calculationPromptMaxTokens 9223372036854775808 10 1000 9007199254740995
     = 9007199254740996
   \<and> calculationPromptMaxTokens 9223372036854775808 10 1000 9007199254740995
     \<noteq> 9007199254740995"
  by (simp add: calculationPromptMaxTokens_float64 float64_def roundToFloat64_above_pow53
      int_of_float64_def)

text \<open>
  C6, as the code has it. For every triple of 64-bit integers the result does not depend
  on the prompt length or on the combined cap: it is \<open>MaxResponseTokens\<close> converted to
  \<open>float64\<close> and back. It equals \<open>MaxResponseTokens\<close> whenever
  \<open>\<bar>MaxResponseTokens\<bar> \<le> 2^53\<close>.
\<close>

theorem calculationPromptMaxTokens_constant:
  "calculationPromptMaxTokens outOfRange questLength requestResponseCap responseTokens
     = calculationPromptMaxTokens outOfRange questLength' requestResponseCap' responseTokens
   \<and> calculationPromptMaxTokens outOfRange questLength requestResponseCap responseTokens
     = int_of_float64 outOfRange (float64 responseTokens)
   \<and> (\<bar>sint responseTokens\<bar> \<le> 2 ^ 53 \<longrightarrow>
        calculationPromptMaxTokens outOfRange questLength requestResponseCap responseTokens
          = responseTokens)"
proof -
  have result: "calculationPromptMaxTokens outOfRange n b responseTokens
      = int_of_float64 outOfRange (float64 responseTokens)" for n b
    by (rule calculationPromptMaxTokens_float64)
  have "calculationPromptMaxTokens outOfRange questLength requestResponseCap responseTokens
      = calculationPromptMaxTokens outOfRange questLength' requestResponseCap' responseTokens"
    by (simp only: result)
  moreover have "calculationPromptMaxTokens outOfRange questLength requestResponseCap
      responseTokens = responseTokens" if "\<bar>sint responseTokens\<bar> \<le> 2 ^ 53"
    using that by (rule calculationPromptMaxTokens_exact)
  ultimately show ?thesis
    using result by blast
qed

theorem calculationPromptMaxTokens_constant_witness:
  "\<bar>sint (256 :: 64 word)\<bar> \<le> 2 ^ 53
   \<and> calculationPromptMaxTokens 0 700 4000 256 = 256
   \<and> calculationPromptMaxTokens 0 700 4000 256 = calculationPromptMaxTokens 0 5000 (- 1) 256"
proof -
  have h: "\<bar>sint (256 :: 64 word)\<bar> \<le> 2 ^ 53" by simp
  note t = calculationPromptMaxTokens_constant [of 0 700 4000 256 5000 "- 1"]
  from t have a: "calculationPromptMaxTokens 0 700 4000 256
      = calculationPromptMaxTokens 0 5000 (- 1) 256"
    by (rule conjunct1)
  from t h have b: "calculationPromptMaxTokens 0 700 4000 256 = 256"
    by blast
  show ?thesis
    by (rule conjI [OF h conjI [OF b a]])
qed

section \<open>Properties of the conversation store\<close>

subsection \<open>The cache\<close>

lemma fst_lru_Get: "fst (lru_Get now k l) = lru_live now k l"
  by (simp add: lru_Get_def lru_live_def split: option.split)

lemma capacity_lru_Get: "capacity (snd (lru_Get now k l)) = capacity l"
  by (simp add: lru_Get_def split: option.split)

lemma lru_Get_hit:
  assumes "lru_live now k l = Some a"
  shows "lru_live t k' (snd (lru_Get now k l)) = lru_live t k' l"
proof -
  from assms obtain e where e: "map_of (items l) k = Some e" "\<not> expiresAt e < now"
    by (auto simp: lru_live_def split: option.splits if_splits)
  then have "map_of (items (snd (lru_Get now k l))) k' = map_of (items l) k'"
    by (cases "k' = k") (simp_all add: lru_Get_def)
  then show ?thesis by (simp add: lru_live_def)
qed

lemma lru_Get_miss:
  assumes "lru_live now k l = None"
  shows "lru_live t k' (snd (lru_Get now k l)) = (if k' = k then None else lru_live t k' l)"
  using assms
  by (auto simp: lru_live_def lru_Get_def AList.delete_conv' split: option.splits if_splits)


lemma map_of_take:
  "map_of (take n xs) k = None \<or> map_of (take n xs) k = map_of xs k"
proof (induction xs arbitrary: n)
  case Nil
  then show ?case by simp
next
  case (Cons x xs)
  then show ?case by (cases n) auto
qed

lemma lru_Set_other:
  assumes "k' \<noteq> k" and "lru_live t k' l = None"
  shows "lru_live t k' (lru_Set k v maxAge now l) = None"
proof -
  let ?xs = "(k, \<lparr>conv = v, expiresAt = now + maxAge\<rparr>) # AList.delete k (items l)"
  have "map_of ?xs k' = map_of (items l) k'"
    using assms(1) by (simp add: AList.delete_conv')
  with map_of_take [of "capacity l" ?xs k'] assms(2) show ?thesis
    by (auto simp: lru_live_def lru_Set_def split: option.splits if_splits)
qed

lemma lru_Set_same:
  assumes "0 < capacity l"
  shows "map_of (items (lru_Set k v maxAge now l)) k = Some \<lparr>conv = v, expiresAt = now + maxAge\<rparr>"
  using assms by (cases "capacity l") (simp_all add: lru_Set_def)

lemma GetOrCreateConversation_hit:
  assumes "lru_live now (ID (fillConversationConfig D (cfg c) id0 conf)) (conversationsCache c) = Some a"
  shows "GetOrCreateConversation D N now id0 conf c =
           (Inr a, c\<lparr>conversationsCache :=
              snd (lru_Get now (ID (fillConversationConfig D (cfg c) id0 conf)) (conversationsCache c))\<rparr>)"
proof -
  let ?k = "ID (fillConversationConfig D (cfg c) id0 conf)"
  obtain r cache where g: "lru_Get now ?k (conversationsCache c) = (r, cache)"
    by (cases "lru_Get now ?k (conversationsCache c)")
  with assms fst_lru_Get [of now ?k "conversationsCache c"] have "r = Some a" by simp
  with g show ?thesis by (simp add: GetOrCreateConversation_def Let_def)
qed

lemma GetOrCreateConversation_miss:
  assumes "lru_live now (ID (fillConversationConfig D (cfg c) id0 conf)) (conversationsCache c) = None"
    and "N (cfg c) (fillConversationConfig D (cfg c) id0 conf) = Inr conversation"
  shows "GetOrCreateConversation D N now id0 conf c =
           (Inr (nextAddr c),
            c\<lparr>conversationsCache :=
                lru_Set id0 (nextAddr c) (MaxAge (fillConversationConfig D (cfg c) id0 conf)) now
                  (snd (lru_Get now (ID (fillConversationConfig D (cfg c) id0 conf))
                     (conversationsCache c))),
              heap := (heap c)(nextAddr c := conversation),
              nextAddr := Suc (nextAddr c)\<rparr>)"
proof -
  let ?k = "ID (fillConversationConfig D (cfg c) id0 conf)"
  obtain r cache where g: "lru_Get now ?k (conversationsCache c) = (r, cache)"
    by (cases "lru_Get now ?k (conversationsCache c)")
  with assms(1) fst_lru_Get [of now ?k "conversationsCache c"] have "r = None" by simp
  with g assms(2) show ?thesis by (simp add: GetOrCreateConversation_def Let_def)
qed

lemma ID_fillConversationConfig:
  "ID (fillConversationConfig D ccfg id0 conf) = (if ID conf = [] then id0 else ID conf)"
  by (simp add: fillConversationConfig_def Let_def)

subsection \<open>Changing the model\<close>

lemma GetConversation_live:
  assumes "lru_live now id0 (conversationsCache c) = Some a"
  shows "GetConversation now id0 c =
           (Inr a, c\<lparr>conversationsCache := snd (lru_Get now id0 (conversationsCache c))\<rparr>)"
proof -
  obtain r cache where g: "lru_Get now id0 (conversationsCache c) = (r, cache)"
    by (cases "lru_Get now id0 (conversationsCache c)")
  with assms fst_lru_Get [of now id0 "conversationsCache c"] have "r = Some a" by simp
  with g show ?thesis by (simp add: GetConversation_def)
qed

lemma GetConversation_absent:
  assumes "lru_live now id0 (conversationsCache c) = None"
  shows "GetConversation now id0 c =
           (Inl (''conversation(id: '' @ id0 @ '') not found''),
            c\<lparr>conversationsCache := snd (lru_Get now id0 (conversationsCache c))\<rparr>)"
proof -
  obtain r cache where g: "lru_Get now id0 (conversationsCache c) = (r, cache)"
    by (cases "lru_Get now id0 (conversationsCache c)")
  with assms fst_lru_Get [of now id0 "conversationsCache c"] have "r = None" by simp
  with g show ?thesis by (simp add: GetConversation_def)
qed

text \<open>
  C8. \<open>ChangeConversationModel\<close> returns the not-found error exactly when the store
  has no live entry for the identifier. When it has one, for the conversation at
  address \<open>a\<close>, no error is returned, the object at \<open>a\<close> has its model replaced and
  every other object is as before, and the store answers every lookup, at every time,
  as it did before; its capacity, the allocation pointer and the configuration are
  unchanged.
\<close>

theorem ChangeConversationModel_not_found_iff:
  "(fst (ChangeConversationModel now conversationID m c)
      = Some (''conversation(id: '' @ conversationID @ '') not found''))
     = (lru_live now conversationID (conversationsCache c) = None)
   \<and> (\<forall>a. lru_live now conversationID (conversationsCache c) = Some a \<longrightarrow>
         fst (ChangeConversationModel now conversationID m c) = None
       \<and> heap (snd (ChangeConversationModel now conversationID m c))
           = (heap c)(a := (heap c a)\<lparr>model := m\<rparr>)
       \<and> (\<forall>t k. lru_live t k (conversationsCache (snd (ChangeConversationModel now conversationID m c)))
                 = lru_live t k (conversationsCache c))
       \<and> capacity (conversationsCache (snd (ChangeConversationModel now conversationID m c)))
           = capacity (conversationsCache c)
       \<and> nextAddr (snd (ChangeConversationModel now conversationID m c)) = nextAddr c
       \<and> cfg (snd (ChangeConversationModel now conversationID m c)) = cfg c)"
proof (cases "lru_live now conversationID (conversationsCache c)")
  case None
  then show ?thesis
    by (simp add: ChangeConversationModel_def GetConversation_absent)
next
  case (Some a)
  then show ?thesis
    by (simp add: ChangeConversationModel_def GetConversation_live SetModel_def
        lru_Get_hit capacity_lru_Get)
qed

theorem ChangeConversationModel_not_found_iff_witness:
  "lru_live 5 ''a'' (conversationsCache (clientHolding ''a'')) = Some 0
   \<and> fst (ChangeConversationModel 5 ''a'' ''gpt-4'' (clientHolding ''a'')) = None
   \<and> model (heap (snd (ChangeConversationModel 5 ''a'' ''gpt-4'' (clientHolding ''a''))) 0)
       = ''gpt-4''
   \<and> lru_live 5000 ''a'' (conversationsCache (clientHolding ''a'')) = None
   \<and> fst (ChangeConversationModel 5000 ''a'' ''gpt-4'' (clientHolding ''a''))
       = Some ''conversation(id: a) not found''"
proof -
  let ?c = "clientHolding ''a''"
  have live: "lru_live 5 ''a'' (conversationsCache ?c) = Some 0"
    by (simp add: lru_live_def clientHolding_def)
  have dead: "lru_live 5000 ''a'' (conversationsCache ?c) = None"
    by (simp add: lru_live_def clientHolding_def)
  from ChangeConversationModel_not_found_iff [of 5 "''a''" "''gpt-4''" ?c] live
  have "fst (ChangeConversationModel 5 ''a'' ''gpt-4'' ?c) = None"
    and "heap (snd (ChangeConversationModel 5 ''a'' ''gpt-4'' ?c))
           = (heap ?c)(0 := (heap ?c 0)\<lparr>model := ''gpt-4''\<rparr>)"
    by blast+
  moreover from ChangeConversationModel_not_found_iff [of 5000 "''a''" "''gpt-4''" ?c] dead
  have "fst (ChangeConversationModel 5000 ''a'' ''gpt-4'' ?c)
      = Some (''conversation(id: '' @ ''a'' @ '') not found'')"
    by blast
  ultimately show ?thesis using live dead by simp
qed

subsection \<open>Lookup under the identifier of the configuration\<close>

lemma clientHolding_reachable:
  "snd (GetOrCreateConversation 3600 NewConversation_spec 0 k
          \<lparr>ID = [], MaxAge = 0, Context = [], Language = [], ChatGPTName = []\<rparr>
          (emptyClient (Inl [])))
     = clientHolding k"
  by (simp add: GetOrCreateConversation_def fillConversationConfig_def lru_Get_def lru_Set_def
      NewConversation_spec_def emptyClient_def clientHolding_def blankConversation_def Let_def)

text \<open>
  In a store that holds a live conversation under the key \<open>"b"\<close>, a call with the
  identifier \<open>"a"\<close> and a configuration whose \<open>ID\<close> is \<open>"b"\<close> returns that
  conversation: nothing is constructed, and nothing is inserted under \<open>"a"\<close>.
\<close>

theorem GetOrCreateConversation_other_ID_counterexample:
  "lru_live 1 ''b'' (conversationsCache (clientHolding ''b'')) = Some 0
   \<and> fst (GetOrCreateConversation 3600 NewConversation_spec 1 ''a''
            \<lparr>ID = ''b'', MaxAge = 0, Context = [], Language = [], ChatGPTName = []\<rparr>
            (clientHolding ''b'')) = Inr 0
   \<and> nextAddr (snd (GetOrCreateConversation 3600 NewConversation_spec 1 ''a''
            \<lparr>ID = ''b'', MaxAge = 0, Context = [], Language = [], ChatGPTName = []\<rparr>
            (clientHolding ''b''))) = nextAddr (clientHolding ''b'')
   \<and> map_of (items (conversationsCache (snd (GetOrCreateConversation 3600 NewConversation_spec 1 ''a''
            \<lparr>ID = ''b'', MaxAge = 0, Context = [], Language = [], ChatGPTName = []\<rparr>
            (clientHolding ''b''))))) ''a'' = None"
  by (simp add: GetOrCreateConversation_def fillConversationConfig_def lru_Get_def lru_Set_def
      lru_live_def NewConversation_spec_def emptyClient_def clientHolding_def AList.delete_eq Let_def)

text \<open>
  C10, as the code has it. Let \<open>ID conf\<close> be non-empty and different from the
  identifier \<open>id0\<close>. The lookup is made under \<open>ID conf\<close>, the insertion under
  \<open>id0\<close>. If the store has a live entry under \<open>ID conf\<close>, the call returns it, and
  constructs and inserts nothing. If it has none and \<open>NewConversation\<close> succeeds, the
  call puts the new conversation at a fresh address and inserts it under \<open>id0\<close>; an
  identical call made afterwards does not find it: it constructs a conversation again,
  at the next fresh address, and inserts it under \<open>id0\<close> in place of the first.
\<close>

theorem GetOrCreateConversation_other_ID:
  assumes "ID conf \<noteq> []" and "ID conf \<noteq> id0"
  shows "(\<forall>a. lru_live now (ID conf) (conversationsCache c) = Some a \<longrightarrow>
            fst (GetOrCreateConversation D N now id0 conf c) = Inr a
          \<and> heap (snd (GetOrCreateConversation D N now id0 conf c)) = heap c
          \<and> nextAddr (snd (GetOrCreateConversation D N now id0 conf c)) = nextAddr c
          \<and> (\<forall>t k. lru_live t k (conversationsCache (snd (GetOrCreateConversation D N now id0 conf c)))
                    = lru_live t k (conversationsCache c)))
       \<and> (\<forall>conversation now'.
            lru_live now (ID conf) (conversationsCache c) = None
            \<and> N (cfg c) (fillConversationConfig D (cfg c) id0 conf) = Inr conversation
            \<and> now \<le> now' \<longrightarrow>
            fst (GetOrCreateConversation D N now id0 conf c) = Inr (nextAddr c)
          \<and> heap (snd (GetOrCreateConversation D N now id0 conf c)) (nextAddr c) = conversation
          \<and> (0 < capacity (conversationsCache c) \<longrightarrow>
               map_of (items (conversationsCache (snd (GetOrCreateConversation D N now id0 conf c)))) id0
                 = Some \<lparr>conv = nextAddr c,
                         expiresAt = now + MaxAge (fillConversationConfig D (cfg c) id0 conf)\<rparr>)
          \<and> fst (GetOrCreateConversation D N now' id0 conf
                   (snd (GetOrCreateConversation D N now id0 conf c))) = Inr (Suc (nextAddr c))
          \<and> (0 < capacity (conversationsCache c) \<longrightarrow>
               map_of (items (conversationsCache (snd (GetOrCreateConversation D N now' id0 conf
                   (snd (GetOrCreateConversation D N now id0 conf c)))))) id0
                 = Some \<lparr>conv = Suc (nextAddr c),
                         expiresAt = now' + MaxAge (fillConversationConfig D (cfg c) id0 conf)\<rparr>))"
proof (intro conjI allI impI)
  let ?conf = "fillConversationConfig D (cfg c) id0 conf"
  have key: "ID ?conf = ID conf"
    using assms(1) by (simp add: ID_fillConversationConfig)
  {
    fix a
    assume live: "lru_live now (ID conf) (conversationsCache c) = Some a"
    then have hit: "GetOrCreateConversation D N now id0 conf c =
        (Inr a, c\<lparr>conversationsCache := snd (lru_Get now (ID conf) (conversationsCache c))\<rparr>)"
      using GetOrCreateConversation_hit [of now D c id0 conf a N] by (simp add: key)
    show "fst (GetOrCreateConversation D N now id0 conf c) = Inr a"
      and "heap (snd (GetOrCreateConversation D N now id0 conf c)) = heap c"
      and "nextAddr (snd (GetOrCreateConversation D N now id0 conf c)) = nextAddr c"
      by (simp_all add: hit)
    show "lru_live t k (conversationsCache (snd (GetOrCreateConversation D N now id0 conf c)))
        = lru_live t k (conversationsCache c)" for t k
      by (simp add: hit lru_Get_hit [OF live])
  }
  {
    fix conversation now'
    assume h: "lru_live now (ID conf) (conversationsCache c) = None
        \<and> N (cfg c) ?conf = Inr conversation \<and> now \<le> now'"
    let ?cache = "snd (lru_Get now (ID conf) (conversationsCache c))"
    let ?c1 = "c\<lparr>conversationsCache := lru_Set id0 (nextAddr c) (MaxAge ?conf) now ?cache,
                 heap := (heap c)(nextAddr c := conversation),
                 nextAddr := Suc (nextAddr c)\<rparr>"
    have first: "GetOrCreateConversation D N now id0 conf c = (Inr (nextAddr c), ?c1)"
      using h GetOrCreateConversation_miss [of now D c id0 conf N conversation]
      by (simp add: key)
    have "lru_live now' (ID conf) ?cache = None"
      using h by (simp add: lru_Get_miss)
    then have miss: "lru_live now' (ID conf) (conversationsCache ?c1) = None"
      using assms(2) by (simp add: lru_Set_other)
    have conf1: "fillConversationConfig D (cfg ?c1) id0 conf = ?conf"
      by simp
    have second: "GetOrCreateConversation D N now' id0 conf ?c1 =
        (Inr (Suc (nextAddr c)),
         ?c1\<lparr>conversationsCache :=
                lru_Set id0 (Suc (nextAddr c)) (MaxAge ?conf) now'
                  (snd (lru_Get now' (ID conf) (conversationsCache ?c1))),
              heap := (heap ?c1)(Suc (nextAddr c) := conversation),
              nextAddr := Suc (Suc (nextAddr c))\<rparr>)"
      using h miss GetOrCreateConversation_miss [of now' D ?c1 id0 conf N conversation]
      by (simp add: key)
    show "fst (GetOrCreateConversation D N now id0 conf c) = Inr (nextAddr c)"
      and "heap (snd (GetOrCreateConversation D N now id0 conf c)) (nextAddr c) = conversation"
      by (simp_all add: first)
    show "fst (GetOrCreateConversation D N now' id0 conf
            (snd (GetOrCreateConversation D N now id0 conf c))) = Inr (Suc (nextAddr c))"
      by (simp add: first second)
    {
      assume cap: "0 < capacity (conversationsCache c)"
      then have cap0: "0 < capacity ?cache"
        by (simp add: capacity_lru_Get)
      show "map_of (items (conversationsCache (snd (GetOrCreateConversation D N now id0 conf c)))) id0
          = Some \<lparr>conv = nextAddr c, expiresAt = now + MaxAge ?conf\<rparr>"
        by (simp add: first lru_Set_same [OF cap0])
      have "capacity (lru_Set id0 (nextAddr c) (MaxAge ?conf) now ?cache) = capacity ?cache"
        by (simp add: lru_Set_def)
      with cap0 have cap1: "0 < capacity (snd (lru_Get now' (ID conf)
          (lru_Set id0 (nextAddr c) (MaxAge ?conf) now ?cache)))"
        by (simp add: capacity_lru_Get)
      show "map_of (items (conversationsCache (snd (GetOrCreateConversation D N now' id0 conf
              (snd (GetOrCreateConversation D N now id0 conf c)))))) id0
          = Some \<lparr>conv = Suc (nextAddr c), expiresAt = now' + MaxAge ?conf\<rparr>"
        by (simp add: first second lru_Set_same [OF cap1])
    }
  }
qed

theorem GetOrCreateConversation_other_ID_witness:
  "ID \<lparr>ID = ''b'', MaxAge = 0, Context = [], Language = [], ChatGPTName = []\<rparr> \<noteq> []
   \<and> ID \<lparr>ID = ''b'', MaxAge = 0, Context = [], Language = [], ChatGPTName = []\<rparr> \<noteq> ''a''
   \<and> fst (GetOrCreateConversation 3600 NewConversation_spec 0 ''a''
            \<lparr>ID = ''b'', MaxAge = 0, Context = [], Language = [], ChatGPTName = []\<rparr>
            (emptyClient (Inl []))) = Inr 0
   \<and> fst (GetOrCreateConversation 3600 NewConversation_spec 7 ''a''
            \<lparr>ID = ''b'', MaxAge = 0, Context = [], Language = [], ChatGPTName = []\<rparr>
            (snd (GetOrCreateConversation 3600 NewConversation_spec 0 ''a''
                   \<lparr>ID = ''b'', MaxAge = 0, Context = [], Language = [], ChatGPTName = []\<rparr>
                   (emptyClient (Inl []))))) = Inr 1
   \<and> fst (GetOrCreateConversation 3600 NewConversation_spec 7 ''a''
            \<lparr>ID = ''b'', MaxAge = 0, Context = [], Language = [], ChatGPTName = []\<rparr>
            (clientHolding ''b'')) = Inr 0"
proof -
  let ?conf = "\<lparr>ID = ''b'', MaxAge = 0, Context = [], Language = [], ChatGPTName = []\<rparr>"
  let ?c = "emptyClient (Inl [])"
  have h1: "ID ?conf \<noteq> []" and h2: "ID ?conf \<noteq> ''a''"
    by simp_all
  have miss: "lru_live 0 (ID ?conf) (conversationsCache ?c) = None"
    by (simp add: lru_live_def emptyClient_def)
  have new: "NewConversation_spec (cfg ?c) (fillConversationConfig 3600 (cfg ?c) ''a'' ?conf)
      = Inr \<lparr>convID = ''b'', history = [], model = [], convContext = [], language = [],
             assistantName = ''ChatGPT'', maxAgeSeconds = 3600\<rparr>"
    by (simp add: NewConversation_spec_def fillConversationConfig_def emptyClient_def Let_def)
  have live: "lru_live 7 (ID ?conf) (conversationsCache (clientHolding ''b'')) = Some 0"
    by (simp add: lru_live_def clientHolding_def)
  note t = GetOrCreateConversation_other_ID [OF h1 h2]
  from t [where now = 0 and c = ?c and D = 3600 and N = NewConversation_spec] miss new
  have "fst (GetOrCreateConversation 3600 NewConversation_spec 0 ''a'' ?conf ?c) = Inr (nextAddr ?c)"
    and "fst (GetOrCreateConversation 3600 NewConversation_spec 7 ''a'' ?conf
           (snd (GetOrCreateConversation 3600 NewConversation_spec 0 ''a'' ?conf ?c)))
         = Inr (Suc (nextAddr ?c))"
    by force+
  moreover from t [where now = 7 and c = "clientHolding ''b''" and D = 3600
      and N = NewConversation_spec] live
  have "fst (GetOrCreateConversation 3600 NewConversation_spec 7 ''a'' ?conf (clientHolding ''b''))
      = Inr 0"
    by blast
  moreover have "nextAddr ?c = 0"
    by (simp add: emptyClient_def)
  ultimately show ?thesis using h1 h2 by simp
qed

subsection \<open>A second call with another configuration\<close>

text \<open>
  C7. The code at an input where it departs from the claim. The first call, with the
  identifier \<open>"a"\<close> and a configuration without \<open>ID\<close>, creates the conversation at
  address 0 with the context \<open>"first"\<close>; it is live under \<open>"a"\<close> at time 1. The
  second call, at time 1 with the same identifier and a configuration whose \<open>ID\<close> is
  \<open>"b"\<close>, looks up \<open>"b"\<close>, finds nothing, creates a conversation at address 1 with
  the context \<open>"second"\<close> and stores it under \<open>"a"\<close>.
\<close>

theorem GetOrCreateConversation_second_call_other_ID:
  "(let r1 = GetOrCreateConversation 3600 NewConversation_spec 0 ''a''
               \<lparr>ID = [], MaxAge = 0, Context = ''first'', Language = [], ChatGPTName = []\<rparr>
               (emptyClient (Inl []));
        r2 = GetOrCreateConversation 3600 NewConversation_spec 1 ''a''
               \<lparr>ID = ''b'', MaxAge = 0, Context = ''second'', Language = [], ChatGPTName = []\<rparr>
               (snd r1)
    in fst r1 = Inr 0
     \<and> lru_live 1 ''a'' (conversationsCache (snd r1)) = Some 0
     \<and> convContext (heap (snd r1) 0) = ''first''
     \<and> fst r2 = Inr 1
     \<and> convContext (heap (snd r2) 1) = ''second''
     \<and> lru_live 1 ''a'' (conversationsCache (snd r2)) = Some 1)"
  by (simp add: GetOrCreateConversation_def fillConversationConfig_def lru_Get_def lru_Set_def
      lru_live_def NewConversation_spec_def emptyClient_def AList.delete_eq Let_def)

section \<open>Properties of Ask\<close>

lemma Ask_completion:
  assumes "Model acfg \<noteq> ModelGPT3_5Turbo" and "Model acfg \<noteq> ModelGPT3_5Turbo0301"
  shows "Ask TrimSpace outOfRange c acfg =
     (case CreateCompletion (core c)
             \<lparr>completion_Model = Model acfg, completion_Prompt = Prompt acfg,
              completion_MaxTokens =
                calculationPromptMaxTokens outOfRange (of_nat (length (Prompt acfg)))
                  (MaxRequestResponseTokens acfg) (MaxResponseTokens (cfg c))\<rparr> of
        Inl err \<Rightarrow> Inr (Inl err)
      | Inr [] \<Rightarrow> Inl IndexOutOfRange
      | Inr (text # others) \<Rightarrow> Inr (Inr (TrimSpace text)))"
  using assms by (simp add: Ask_def firstChoice_def Let_def split: sum.split list.split)

lemma Ask_remote_failure:
  assumes "CreateCompletion (core c) = (\<lambda>request. Inl err)"
    and "CreateChatCompletion (core c) = (\<lambda>request. Inl err)"
    and "None \<notin> set (Messages acfg)"
  shows "Ask TrimSpace outOfRange c acfg = Inr (Inl err)"
proof -
  have "\<exists>n ms. chatMessages xs k acc = Inr (n, ms)" if "None \<notin> set xs" for xs k acc
    using that
  proof (induction xs arbitrary: k acc)
    case Nil
    then show ?case by simp
  next
    case (Cons x xs)
    then show ?case by (cases x) simp_all
  qed
  from this [OF assms(3)] obtain n ms where "chatMessages (Messages acfg) 0 [] = Inr (n, ms)"
    by blast
  then show ?thesis
    using assms(1,2) by (simp add: Ask_def Let_def)
qed

text \<open>
  C9. The code at an input where it departs from the claim: the remote call succeeds
  with a response that has no choices, and \<open>Ask\<close> neither returns a trimmed text nor
  returns an error, it panics on \<open>Choices[0]\<close>; on the completion path and on the chat
  path alike.
\<close>

theorem Ask_empty_choices:
  "Ask (\<lambda>text. text) 9223372036854775808 (emptyClient (Inr []))
     \<lparr>Model = ''text-davinci-003'', Prompt = ''hi'', Messages = [],
      MaxRequestResponseTokens = 4000\<rparr>
     = Inl IndexOutOfRange
   \<and> Ask (\<lambda>text. text) 9223372036854775808 (emptyClient (Inr []))
     \<lparr>Model = ''gpt-3.5-turbo'',
      Prompt = [],
      Messages = [Some \<lparr>Text = ''hi'', IsChatGPT = False, User = [], Role = ''user''\<rparr>],
      MaxRequestResponseTokens = 4000\<rparr>
     = Inl IndexOutOfRange"
  by (simp add: Ask_def firstChoice_def emptyClient_def ModelGPT3_5Turbo_def
      ModelGPT3_5Turbo0301_def Let_def)

end
